theory Spec2Isabelle
  imports Complex_Main "HOL-Library.Log_Nat"
begin

section \<open>Values of the JavaScript runtime\<close>

text \<open>
  The gateway (\<^verbatim>\<open>app/src/index.ts\<close>) handles JSON values: the request body, the
  entries of the cookie session and the decrypted credential payload. A property that is
  not there reads as \<^verbatim>\<open>undefined\<close>, which is \<open>None\<close> here.
\<close>

datatype json =
    JNull
  | JBool bool
  | JNum rat
  | JStr string
  | JArr "json list"
  | JObj "(string \<times> json) list"

text \<open>JavaScript truthiness, as the tests \<^verbatim>\<open>a && b\<close> of the source use it.\<close>

fun truthy :: "json \<Rightarrow> bool" where
  "truthy JNull = False"
| "truthy (JBool b) = b"
| "truthy (JNum n) = (n \<noteq> 0)"
| "truthy (JStr s) = (s \<noteq> [])"
| "truthy (JArr xs) = True"
| "truthy (JObj kvs) = True"

fun truthy_opt :: "json option \<Rightarrow> bool" where
  "truthy_opt None = False"
| "truthy_opt (Some v) = truthy v"

text \<open>
  \<^verbatim>\<open>v.k\<close> for the property names the source reads (\<^verbatim>\<open>iv\<close>, \<^verbatim>\<open>cr\<close>,
  \<^verbatim>\<open>expires\<close>, \<^verbatim>\<open>password\<close>, \<^verbatim>\<open>key\<close>): only an object has them.
  \<^verbatim>\<open>v?.k\<close> is the same read on a value that may be \<^verbatim>\<open>undefined\<close>.
\<close>

fun get :: "json \<Rightarrow> string \<Rightarrow> json option" where
  "get (JObj kvs) k = map_of kvs k"
| "get v k = None"

fun opt_get :: "json option \<Rightarrow> string \<Rightarrow> json option" where
  "opt_get None k = None"
| "opt_get (Some v) k = get v k"

text \<open>The outcome of a call that may throw, or of an awaited promise that may reject.\<close>

datatype 'a outcome = Throws | Returns 'a

section \<open>Data model\<close>

datatype AssetType = AssetType_image | AssetType_video

record Asset =
  asset_id :: string
  asset_type :: AssetType

record SharedLink =
  assets :: "Asset list"

text \<open>What \<^verbatim>\<open>immich.getShareByKey\<close> resolves to: an object whose \<^verbatim>\<open>link\<close> may be missing.\<close>

record Share =
  link :: "SharedLink option"

record EncryptedPair =
  iv :: string
  cr :: string

text \<open>
  The collaborators that \<^verbatim>\<open>index.ts\<close> imports (\<^verbatim>\<open>./immich\<close>, \<^verbatim>\<open>./encrypt\<close>,
  \<^verbatim>\<open>./functions\<close>, \<^verbatim>\<open>./types\<close>) and the library calls it makes (\<^verbatim>\<open>JSON\<close>,
  \<^verbatim>\<open>dayjs\<close>) are parameters of the model. Times are milliseconds since the epoch;
  \<open>dayjs_valueOf\<close> is \<open>None\<close> for an invalid date (\<^verbatim>\<open>NaN\<close>).
  \<open>session_read_only\<close> tells the property names that the session object of
  \<^verbatim>\<open>cookie-session\<close> does not let its user assign (accessors without a setter, constant
  properties).
\<close>

record collaborators =
  isKey :: "string \<Rightarrow> bool"
  isId :: "string \<Rightarrow> bool"
  ImageSize_values :: "string list"
  getShareByKey :: "string \<Rightarrow> json option \<Rightarrow> Share option outcome"
  getGalleryAssetsByShareKey :: "string \<Rightarrow> json outcome"
  decrypt :: "EncryptedPair \<Rightarrow> string outcome"
  encrypt :: "string \<Rightarrow> EncryptedPair"
  JSON_parse :: "string \<Rightarrow> json outcome"
  JSON_stringify :: "json \<Rightarrow> string"
  toString :: "json option \<Rightarrow> string"
  String_of :: "json \<Rightarrow> string"
  dayjs_valueOf :: "json \<Rightarrow> int option"
  dayjs_format :: "int \<Rightarrow> string"
  session_read_only :: "string \<Rightarrow> bool"

text \<open>
  The request as the handlers read it. \<open>session\<close> is \<^verbatim>\<open>req.session\<close>, the caller's
  cookie-backed store, taken as a map from keys to the values stored under them (absent
  when there is none); \<open>body\<close> is what \<^verbatim>\<open>express.json()\<close> leaves in \<^verbatim>\<open>req.body\<close>, an
  empty object when nothing was parsed; \<open>password\<close> is the property that the source adds
  to \<^verbatim>\<open>Request\<close>. The route parameters are the ones of the route that matched:
  \<open>params_id\<close> is the asset id on the asset route and the share key on the listing route.
  A query parameter is the text that \<^verbatim>\<open>parseInt\<close> reads: the value itself, or what
  \<^verbatim>\<open>ToString\<close> makes of a parameter that was given more than once.
\<close>

record request =
  params_type :: string
  params_key :: string
  params_id :: string
  params_size :: "string option"
  query_page :: "string option"
  query_pageSize :: "string option"
  headers_range :: "string option"
  protocol :: string
  host :: "string option"
  body :: json
  session :: "(string \<rightharpoonup> json) option"
  password :: "json option"

text \<open>
  What a handler leaves on the response object. \<open>NoResponse\<close>: the handler returned
  without writing anything. \<open>AssetBuffer\<close>: the response was handed to
  \<^verbatim>\<open>render.assetBuffer(request, res, asset, size)\<close>, with the key and range of
  \<^verbatim>\<open>request\<close>. \<open>UnhandledRejection\<close>: an awaited call rejected outside any
  \<^verbatim>\<open>try\<close>. \<open>DefaultError\<close>: a middleware passed an error on and the framework's own
  error handler answered with the status of that error.
\<close>

datatype response =
    NoResponse
  | Send nat string
  | SendJson nat json
  | AssetBuffer string string Asset "string option"
  | UnhandledRejection
  | DefaultError nat

text \<open>
  A handler's effects: the response, and the calls of \<^verbatim>\<open>immich.getShareByKey\<close> it made
  (key and password), in order.
\<close>

record effects =
  response :: response
  resolutions :: "(string \<times> json option) list"

text \<open>
  Modelled from the spec: \<^verbatim>\<open>respondToInvalidRequest\<close> of
  \<^verbatim>\<open>./invalidRequestHandler\<close> is not among the sources; by the interface table of the
  specification an invalid request is answered with the given status and an empty body.
\<close>

definition respondToInvalidRequest :: "nat \<Rightarrow> response" where
  "respondToInvalidRequest status = Send status []"

section \<open>Password gate: \<^verbatim>\<open>decodeCookie\<close>\<close>

datatype middleware = Next request | ThrowsPast

text \<open>\<^verbatim>\<open>dayjs(x) > dayjs()\<close>: a comparison of the two \<^verbatim>\<open>valueOf()\<close>, false on \<^verbatim>\<open>NaN\<close>.\<close>

definition dayjs_after :: "collaborators \<Rightarrow> json \<Rightarrow> int \<Rightarrow> bool" where
  "dayjs_after env x now =
     (case dayjs_valueOf env x of None \<Rightarrow> False | Some t \<Rightarrow> t > now)"

text \<open>The body of the \<^verbatim>\<open>try\<close> block; \<open>Throws\<close> is an exception raised inside it.\<close>

definition stored_pair :: "collaborators \<Rightarrow> json option \<Rightarrow> EncryptedPair" where
  "stored_pair env entry =
     \<lparr>iv = toString env (opt_get entry ''iv''), cr = toString env (opt_get entry ''cr'')\<rparr>"

definition decodeCookie_try ::
  "collaborators \<Rightarrow> int \<Rightarrow> json option \<Rightarrow> request \<Rightarrow> request outcome" where
  "decodeCookie_try env now entry req =
     (case decrypt env (stored_pair env entry) of
        Throws \<Rightarrow> Throws
      | Returns plain \<Rightarrow>
          (case JSON_parse env plain of
             Throws \<Rightarrow> Throws
           | Returns payload \<Rightarrow>
               (case get payload ''expires'' of
                  None \<Rightarrow> Returns req
                | Some e \<Rightarrow>
                    if truthy e \<and> dayjs_after env e now
                    then Returns (req\<lparr>password := get payload ''password''\<rparr>)
                    else Returns req)))"

definition session_entry :: "request \<Rightarrow> json option" where
  "session_entry req =
     (case session req of None \<Rightarrow> None | Some store \<Rightarrow> store (params_key req))"

definition decodeCookie :: "collaborators \<Rightarrow> int \<Rightarrow> request \<Rightarrow> middleware" where
  "decodeCookie env now req =
     (let shareKey = params_key req;
          entry = session_entry req
      in if shareKey \<noteq> [] \<and> truthy_opt (opt_get entry ''iv'') \<and> truthy_opt (opt_get entry ''cr'')
         then (case decodeCookie_try env now entry req of
                 Throws \<Rightarrow> Next req
               | Returns req' \<Rightarrow> Next req')
         else Next req)"

section \<open>Unlock endpoint: \<^verbatim>\<open>POST /share/unlock\<close>\<close>

text \<open>
  The object literal \<^verbatim>\<open>{ password: req.body.password, expires: ... }\<close>; an undefined
  password leaves no property behind when it is serialised.
\<close>

definition credential :: "json option \<Rightarrow> string \<Rightarrow> json" where
  "credential pw expires =
     JObj ((case pw of None \<Rightarrow> [] | Some p \<Rightarrow> [(''password'', p)]) @ [(''expires'', JStr expires)])"

definition pair_json :: "EncryptedPair \<Rightarrow> json" where
  "pair_json p = JObj [(''iv'', JStr (iv p)), (''cr'', JStr (cr p))]"

text \<open>The property key that \<^verbatim>\<open>req.session[k] = ...\<close> writes: a string is used as it is.\<close>

fun toPropertyKey :: "collaborators \<Rightarrow> json \<Rightarrow> string" where
  "toPropertyKey env (JStr s) = s"
| "toPropertyKey env v = String_of env v"

definition hour :: int where
  "hour = 3600000"

definition unlock_credential :: "collaborators \<Rightarrow> int \<Rightarrow> request \<Rightarrow> json" where
  "unlock_credential env now req =
     pair_json (encrypt env (JSON_stringify env
       (credential (get (body req) ''password'') (dayjs_format env (now + hour)))))"

text \<open>
  \<^verbatim>\<open>req.session[k] = v\<close> with an object \<open>v\<close>, in strict mode. The name
  \<^verbatim>\<open>__proto__\<close> is the accessor of \<^verbatim>\<open>Object.prototype\<close>: assigning to it replaces the
  prototype of the session object and creates no property, so nothing is stored. An
  assignment to a name that the session object keeps read-only throws a \<^verbatim>\<open>TypeError\<close>.
\<close>

definition assign ::
  "collaborators \<Rightarrow> (string \<rightharpoonup> json) \<Rightarrow> string \<Rightarrow> json \<Rightarrow> (string \<rightharpoonup> json) outcome" where
  "assign env store k v =
     (if k = ''__proto__'' then Returns store
      else if session_read_only env k then Throws
      else Returns (store(k \<mapsto> v)))"

text \<open>
  The handler is \<^verbatim>\<open>async\<close> and has no \<^verbatim>\<open>try\<close>: an exception in it is a rejection
  that nothing handles, and \<^verbatim>\<open>res.send()\<close> is not reached.
\<close>

definition unlock :: "collaborators \<Rightarrow> int \<Rightarrow> request \<Rightarrow> request \<times> response" where
  "unlock env now req =
     (case session req of
        None \<Rightarrow> (req, Send 200 [])
      | Some store \<Rightarrow>
          (case get (body req) ''key'' of
             None \<Rightarrow> (req, Send 200 [])
           | Some k \<Rightarrow>
               if truthy k
               then (case assign env store (toPropertyKey env k) (unlock_credential env now req) of
                       Throws \<Rightarrow> (req, UnhandledRejection)
                     | Returns store' \<Rightarrow> (req\<lparr>session := Some store'\<rparr>, Send 200 []))
               else (req, Send 200 [])))"

text \<open>
  \<^verbatim>\<open>app.use(express.json())\<close> runs before the route. What it makes of the body of a
  request: the parsed value, which is an empty object when the request has no JSON body, or
  the error it passes on, with its status (400 for a JSON text that does not parse). An
  error skips the handler.
\<close>

datatype posted = Posted json | Refused nat

definition route_unlock ::
  "collaborators \<Rightarrow> int \<Rightarrow> posted \<Rightarrow> request \<Rightarrow> request \<times> response" where
  "route_unlock env now sent req =
     (case sent of
        Refused status \<Rightarrow> (req, DefaultError status)
      | Posted b \<Rightarrow> unlock env now (req\<lparr>body := b\<rparr>))"

section \<open>Asset resolver: \<^verbatim>\<open>GET /share/:type(photo|video)/:key/:id/:size?\<close>\<close>

text \<open>\<^verbatim>\<open>req.params.size && !Object.values(ImageSize).includes(req.params.size)\<close>\<close>

definition invalid_size :: "collaborators \<Rightarrow> request \<Rightarrow> bool" where
  "invalid_size env req =
     (case params_size req of
        None \<Rightarrow> False
      | Some s \<Rightarrow> s \<noteq> [] \<and> s \<notin> set (ImageSize_values env))"

definition range_of :: "request \<Rightarrow> string" where
  "range_of req = (case headers_range req of None \<Rightarrow> [] | Some r \<Rightarrow> r)"

definition typed :: "request \<Rightarrow> Asset \<Rightarrow> Asset" where
  "typed req asset =
     asset\<lparr>asset_type := (if params_type req = ''video'' then AssetType_video else AssetType_image)\<rparr>"

text \<open>\<^verbatim>\<open>(await immich.getShareByKey(...))?.link\<close>\<close>

definition link_of :: "Share option \<Rightarrow> SharedLink option" where
  "link_of share = (case share of None \<Rightarrow> None | Some s \<Rightarrow> link s)"

text \<open>
  The part of the handler after the share is resolved, in \<^verbatim>\<open>app/src/index.ts\<close>: an asset
  that is not in the list is answered like a share without assets.
\<close>

definition serve_asset :: "request \<Rightarrow> SharedLink option \<Rightarrow> response" where
  "serve_asset req sharedLink =
     (case sharedLink of
        None \<Rightarrow> respondToInvalidRequest 404
      | Some l \<Rightarrow>
          if assets l \<noteq> []
          then (case find (\<lambda>x. asset_id x = params_id req) (assets l) of
                  Some asset \<Rightarrow>
                    AssetBuffer (params_key req) (range_of req) (typed req asset) (params_size req)
                | None \<Rightarrow> respondToInvalidRequest 404)
          else respondToInvalidRequest 404)"

text \<open>
  The same part in the other copy of the file (\<^verbatim>\<open>src/unnamed/part_000\<close>): the inner
  \<^verbatim>\<open>if (asset)\<close> has no \<^verbatim>\<open>else\<close>.
\<close>

definition serve_asset_part000 :: "request \<Rightarrow> SharedLink option \<Rightarrow> response" where
  "serve_asset_part000 req sharedLink =
     (case sharedLink of
        None \<Rightarrow> respondToInvalidRequest 404
      | Some l \<Rightarrow>
          if assets l \<noteq> []
          then (case find (\<lambda>x. asset_id x = params_id req) (assets l) of
                  Some asset \<Rightarrow>
                    AssetBuffer (params_key req) (range_of req) (typed req asset) (params_size req)
                | None \<Rightarrow> NoResponse)
          else respondToInvalidRequest 404)"

definition shareAsset_with ::
  "(request \<Rightarrow> SharedLink option \<Rightarrow> response) \<Rightarrow> collaborators \<Rightarrow> request \<Rightarrow> effects" where
  "shareAsset_with serve env req =
     (if \<not> isKey env (params_key req) \<or> \<not> isId env (params_id req)
      then \<lparr>response = respondToInvalidRequest 404, resolutions = []\<rparr>
      else if invalid_size env req
      then \<lparr>response = respondToInvalidRequest 404, resolutions = []\<rparr>
      else
        (case getShareByKey env (params_key req) (password req) of
           Throws \<Rightarrow>
             \<lparr>response = UnhandledRejection, resolutions = [(params_key req, password req)]\<rparr>
         | Returns share \<Rightarrow>
             \<lparr>response = serve req (link_of share),
              resolutions = [(params_key req, password req)]\<rparr>))"

definition shareAsset :: "collaborators \<Rightarrow> request \<Rightarrow> effects" where
  "shareAsset = shareAsset_with serve_asset"

definition shareAsset_part000 :: "collaborators \<Rightarrow> request \<Rightarrow> effects" where
  "shareAsset_part000 = shareAsset_with serve_asset_part000"

text \<open>
  The route: \<^verbatim>\<open>decodeCookie\<close> runs first. An exception that left a middleware would be
  answered by the framework with status 500.
\<close>

definition route_with ::
  "(collaborators \<Rightarrow> request \<Rightarrow> effects) \<Rightarrow> collaborators \<Rightarrow> int \<Rightarrow> request \<Rightarrow> effects" where
  "route_with handler env now req =
     (case decodeCookie env now req of
        ThrowsPast \<Rightarrow> \<lparr>response = Send 500 [], resolutions = []\<rparr>
      | Next req' \<Rightarrow> handler env req')"

definition route_shareAsset :: "collaborators \<Rightarrow> int \<Rightarrow> request \<Rightarrow> effects" where
  "route_shareAsset = route_with shareAsset"

definition route_shareAsset_part000 :: "collaborators \<Rightarrow> int \<Rightarrow> request \<Rightarrow> effects" where
  "route_shareAsset_part000 = route_with shareAsset_part000"

section \<open>Gallery listing: \<^verbatim>\<open>GET /share/:id/api\<close>\<close>

subsection \<open>Numbers\<close>

text \<open>
  The numbers that the listing computes with are doubles. \<^verbatim>\<open>parseInt\<close> gives
  \<^verbatim>\<open>NaN\<close>, an infinity or a double whose value is an integer, and differences,
  products and sums of such numbers are of that kind again, so a finite number is given by
  its integer value; \<^verbatim>\<open>-0\<close> is not told apart from \<^verbatim>\<open>0\<close> (both are falsy, both are
  the index 0, both print as \<^verbatim>\<open>0\<close>).
\<close>

datatype number = NaN | Infinity | NegInfinity | Num int

text \<open>
  The double nearest to an integer, ties to the even mantissa: an integer below \<open>2^53\<close> in
  magnitude is a double; a larger one keeps its leading 53 bits, rounded; from
  \<open>2^1024\<close> on the result is an infinity.
\<close>

definition round_to_double :: "int \<Rightarrow> number" where
  "round_to_double n =
     (let a = \<bar>n\<bar>
      in if a < 2 ^ 53 then Num n
         else
           (let q = 2 ^ (nat (bitlen a) - 53);
                m = a div q;
                r = a mod q;
                m' = (if 2 * r < q then m
                      else if q < 2 * r then m + 1
                      else if even m then m else m + 1);
                v = m' * q
            in if 2 ^ 1024 \<le> v then (if n < 0 then NegInfinity else Infinity)
               else Num (if n < 0 then - v else v)))"

text \<open>\<^verbatim>\<open>x + y\<close>, \<^verbatim>\<open>x - y\<close> and \<^verbatim>\<open>x * y\<close> on these numbers.\<close>

fun add :: "number \<Rightarrow> number \<Rightarrow> number" where
  "add NaN y = NaN"
| "add x NaN = NaN"
| "add Infinity NegInfinity = NaN"
| "add NegInfinity Infinity = NaN"
| "add Infinity y = Infinity"
| "add x Infinity = Infinity"
| "add NegInfinity y = NegInfinity"
| "add x NegInfinity = NegInfinity"
| "add (Num a) (Num b) = round_to_double (a + b)"

fun negate :: "number \<Rightarrow> number" where
  "negate NaN = NaN"
| "negate Infinity = NegInfinity"
| "negate NegInfinity = Infinity"
| "negate (Num a) = Num (- a)"

definition sub :: "number \<Rightarrow> number \<Rightarrow> number" where
  "sub x y = add x (negate y)"

fun signed_infinity :: "bool \<Rightarrow> number" where
  "signed_infinity True = Infinity"
| "signed_infinity False = NegInfinity"

fun mul :: "number \<Rightarrow> number \<Rightarrow> number" where
  "mul NaN y = NaN"
| "mul x NaN = NaN"
| "mul Infinity Infinity = Infinity"
| "mul Infinity NegInfinity = NegInfinity"
| "mul NegInfinity Infinity = NegInfinity"
| "mul NegInfinity NegInfinity = Infinity"
| "mul Infinity (Num b) = (if b = 0 then NaN else signed_infinity (0 < b))"
| "mul NegInfinity (Num b) = (if b = 0 then NaN else signed_infinity (b < 0))"
| "mul (Num a) Infinity = (if a = 0 then NaN else signed_infinity (0 < a))"
| "mul (Num a) NegInfinity = (if a = 0 then NaN else signed_infinity (a < 0))"
| "mul (Num a) (Num b) = round_to_double (a * b)"

text \<open>\<^verbatim>\<open>n || d\<close> on a number: \<^verbatim>\<open>NaN\<close> and zero are falsy.\<close>

definition or_default :: "number \<Rightarrow> number \<Rightarrow> number" where
  "or_default n d = (if n = NaN \<or> n = Num 0 then d else n)"

text \<open>What \<^verbatim>\<open>res.json\<close> writes for a number: \<^verbatim>\<open>null\<close> when it is not finite.\<close>

fun number_json :: "number \<Rightarrow> json" where
  "number_json (Num n) = JNum (of_int n)"
| "number_json x = JNull"

subsection \<open>\<^verbatim>\<open>parseInt\<close>\<close>

text \<open>
  \<^verbatim>\<open>parseInt(s)\<close> without a radix: leading white space is skipped, then an optional
  sign, then an optional \<^verbatim>\<open>0x\<close> that selects radix 16, then the longest run of digits;
  no digit gives \<^verbatim>\<open>NaN\<close>, and the integer that the digits denote is rounded to a double,
  as Node does. A string is the UTF-8 text of the JavaScript string, so the white space of
  the language (\<^verbatim>\<open>WhiteSpace\<close> and \<^verbatim>\<open>LineTerminator\<close>) is one, two or three bytes long:
  U+0009 to U+000D and U+0020; U+00A0; U+1680, U+2000 to U+200A, U+2028, U+2029, U+202F,
  U+205F, U+3000 and U+FEFF.
\<close>

definition white1 :: "char \<Rightarrow> bool" where
  "white1 a \<longleftrightarrow> a \<in> set [CHR 0x09, CHR 0x0A, CHR 0x0B, CHR 0x0C, CHR 0x0D, CHR 0x20]"

definition white2 :: "char \<Rightarrow> char \<Rightarrow> bool" where
  "white2 a b \<longleftrightarrow> a = CHR 0xC2 \<and> b = CHR 0xA0"

definition white3 :: "char \<Rightarrow> char \<Rightarrow> char \<Rightarrow> bool" where
  "white3 a b c \<longleftrightarrow>
     (a = CHR 0xE1 \<and> b = CHR 0x9A \<and> c = CHR 0x80)
     \<or> (a = CHR 0xE2 \<and> b = CHR 0x80
          \<and> c \<in> set [CHR 0x80, CHR 0x81, CHR 0x82, CHR 0x83, CHR 0x84, CHR 0x85, CHR 0x86,
                      CHR 0x87, CHR 0x88, CHR 0x89, CHR 0x8A, CHR 0xA8, CHR 0xA9, CHR 0xAF])
     \<or> (a = CHR 0xE2 \<and> b = CHR 0x81 \<and> c = CHR 0x9F)
     \<or> (a = CHR 0xE3 \<and> b = CHR 0x80 \<and> c = CHR 0x80)
     \<or> (a = CHR 0xEF \<and> b = CHR 0xBB \<and> c = CHR 0xBF)"

fun TrimStart :: "string \<Rightarrow> string" where
  "TrimStart (a # b # c # s) =
     (if white1 a then TrimStart (b # c # s)
      else if white2 a b then TrimStart (c # s)
      else if white3 a b c then TrimStart s
      else a # b # c # s)"
| "TrimStart [a, b] =
     (if white1 a then TrimStart [b] else if white2 a b then [] else [a, b])"
| "TrimStart [a] = (if white1 a then [] else [a])"
| "TrimStart [] = []"

definition digit_value :: "char \<Rightarrow> nat option" where
  "digit_value c =
     (let n = (of_char c :: nat)
      in if 48 \<le> n \<and> n \<le> 57 then Some (n - 48)
         else if 97 \<le> n \<and> n \<le> 122 then Some (n - 87)
         else if 65 \<le> n \<and> n \<le> 90 then Some (n - 55)
         else None)"

definition radix_digit :: "nat \<Rightarrow> char \<Rightarrow> nat option" where
  "radix_digit R c =
     (case digit_value c of None \<Rightarrow> None | Some d \<Rightarrow> if d < R then Some d else None)"

fun leading_digits :: "nat \<Rightarrow> string \<Rightarrow> nat list" where
  "leading_digits R [] = []"
| "leading_digits R (c # cs) =
     (case radix_digit R c of None \<Rightarrow> [] | Some d \<Rightarrow> d # leading_digits R cs)"

definition digits_number :: "nat \<Rightarrow> nat list \<Rightarrow> nat" where
  "digits_number R ds = foldl (\<lambda>a d. a * R + d) 0 ds"

definition strip_sign :: "string \<Rightarrow> int \<times> string" where
  "strip_sign S =
     (case S of
        [] \<Rightarrow> (1, [])
      | c # cs \<Rightarrow> if c = CHR ''-'' then (- 1, cs) else if c = CHR ''+'' then (1, cs) else (1, S))"

definition strip_prefix :: "string \<Rightarrow> nat \<times> string" where
  "strip_prefix S =
     (if take 2 S = ''0x'' \<or> take 2 S = ''0X'' then (16, drop 2 S) else (10, S))"

definition parseInt :: "string \<Rightarrow> number" where
  "parseInt s =
     (let (sign, S) = strip_sign (TrimStart s);
          (R, S') = strip_prefix S;
          Z = leading_digits R S'
      in if Z = [] then NaN else round_to_double (sign * int (digits_number R Z)))"

text \<open>
  A query parameter that is missing is \<^verbatim>\<open>undefined\<close>; \<^verbatim>\<open>parseInt(undefined)\<close> reads the
  text \<^verbatim>\<open>undefined\<close> and is \<^verbatim>\<open>NaN\<close>.
\<close>

definition parseInt_query :: "string option \<Rightarrow> number" where
  "parseInt_query q = (case q of None \<Rightarrow> NaN | Some s \<Rightarrow> parseInt s)"

subsection \<open>\<^verbatim>\<open>Array.prototype.slice\<close>\<close>

text \<open>
  The index that a bound of \<^verbatim>\<open>slice\<close> stands for in an array of \<open>len\<close> elements:
  \<^verbatim>\<open>NaN\<close> is 0, a negative bound counts from the end and stops at 0, any other bound
  stops at \<open>len\<close>.
\<close>

fun relative_index :: "nat \<Rightarrow> number \<Rightarrow> nat" where
  "relative_index len NaN = 0"
| "relative_index len NegInfinity = 0"
| "relative_index len Infinity = len"
| "relative_index len (Num i) =
     (if i < 0 then nat (max (int len + i) 0) else nat (min i (int len)))"

text \<open>\<^verbatim>\<open>xs.slice(start, fin)\<close>: the elements from the first index up to the second, none when the second is not above the first.\<close>

definition slice :: "number \<Rightarrow> number \<Rightarrow> 'a list \<Rightarrow> 'a list" where
  "slice start fin xs =
     (let len = length xs;
          k = relative_index len start;
          final = relative_index len fin
      in take (final - k) (drop k xs))"

text \<open>A bound that lies beyond every index of an array: an infinity or a double from \<open>2^53\<close> on.\<close>

definition huge :: "number \<Rightarrow> bool" where
  "huge x \<longleftrightarrow> x = Infinity \<or> (\<exists>m. x = Num m \<and> 2 ^ 53 \<le> m)"

subsection \<open>The handlers\<close>

definition error_envelope :: json where
  "error_envelope = JObj [(''error'', JStr ''Invalid or expired share key'')]"

definition base :: string where
  "base = ''https://i.techie.pics''"

definition media_item :: "string \<Rightarrow> Asset \<Rightarrow> json" where
  "media_item shareKey asset =
     JObj [(''id'', JStr (asset_id asset)),
           (''thumbUrl'',
              JStr (base @ ''/share/photo/'' @ shareKey @ ''/'' @ asset_id asset @ ''/thumbnail'')),
           (''previewUrl'',
              JStr (base @ ''/share/photo/'' @ shareKey @ ''/'' @ asset_id asset @ ''/preview'')),
           (''originalUrl'',
              JStr (base @ ''/share/photo/'' @ shareKey @ ''/'' @ asset_id asset @ ''/original''))]"

definition page_of :: "request \<Rightarrow> number" where
  "page_of req = or_default (parseInt_query (query_page req)) (Num 1)"

definition pageSize_of :: "request \<Rightarrow> number" where
  "pageSize_of req = or_default (parseInt_query (query_pageSize req)) (Num 20)"

definition listing :: "request \<Rightarrow> Asset list \<Rightarrow> json" where
  "listing req xs =
     (let shareKey = params_id req;
          page = page_of req;
          pageSize = pageSize_of req;
          start = mul (sub page (Num 1)) pageSize;
          pagedAssets = slice start (add start pageSize) xs;
          media = map (media_item shareKey) pagedAssets
      in JObj [(''media'', JArr media),
               (''page'', number_json page),
               (''pageSize'', number_json pageSize),
               (''total'', JNum (of_nat (length xs)))])"

text \<open>
  The \<^verbatim>\<open>try\<close> block of the paginated handler, the second copy in
  \<^verbatim>\<open>src/app/src/index.ts\<close>; \<open>Throws\<close> when the awaited resolution rejects.
\<close>

definition shareApi_try :: "collaborators \<Rightarrow> request \<Rightarrow> response outcome" where
  "shareApi_try env req =
     (case getShareByKey env (params_id req) (Some (JStr [])) of
        Throws \<Rightarrow> Throws
      | Returns share \<Rightarrow>
          (case link_of share of
             None \<Rightarrow> Returns (SendJson 404 error_envelope)
           | Some l \<Rightarrow>
               if assets l = [] then Returns (SendJson 404 error_envelope)
               else Returns (SendJson 200 (listing req (assets l)))))"

definition shareApi :: "collaborators \<Rightarrow> request \<Rightarrow> effects" where
  "shareApi env req =
     \<lparr>response = (case shareApi_try env req of
                    Throws \<Rightarrow> SendJson 404 error_envelope
                  | Returns r \<Rightarrow> r),
      resolutions = [(params_id req, Some (JStr []))]\<rparr>"

text \<open>
  The handler of the first copy in \<^verbatim>\<open>src/app/src/index.ts\<close>: no pagination, and the
  links are built from the protocol and the \<^verbatim>\<open>Host\<close> header of the request (a missing
  header prints as \<^verbatim>\<open>undefined\<close>).
\<close>

definition origin :: "request \<Rightarrow> string" where
  "origin req =
     protocol req @ ''://'' @ (case host req of None \<Rightarrow> ''undefined'' | Some h \<Rightarrow> h)"

definition media_item_origin :: "request \<Rightarrow> string \<Rightarrow> Asset \<Rightarrow> json" where
  "media_item_origin req shareKey asset =
     JObj [(''id'', JStr (asset_id asset)),
           (''thumbUrl'',
              JStr (origin req @ ''/share/photo/'' @ shareKey @ ''/'' @ asset_id asset @ ''/thumb'')),
           (''originalUrl'',
              JStr (origin req @ ''/share/photo/'' @ shareKey @ ''/'' @ asset_id asset))]"

definition shareApi_origin_try :: "collaborators \<Rightarrow> request \<Rightarrow> response outcome" where
  "shareApi_origin_try env req =
     (case getShareByKey env (params_id req) (Some (JStr [])) of
        Throws \<Rightarrow> Throws
      | Returns share \<Rightarrow>
          (case link_of share of
             None \<Rightarrow> Returns (SendJson 404 error_envelope)
           | Some l \<Rightarrow>
               if assets l = [] then Returns (SendJson 404 error_envelope)
               else Returns (SendJson 200
                 (JObj [(''media'', JArr (map (media_item_origin req (params_id req)) (assets l)))]))))"

definition shareApi_origin :: "collaborators \<Rightarrow> request \<Rightarrow> effects" where
  "shareApi_origin env req =
     \<lparr>response = (case shareApi_origin_try env req of
                    Throws \<Rightarrow> SendJson 404 error_envelope
                  | Returns r \<Rightarrow> r),
      resolutions = [(params_id req, Some (JStr []))]\<rparr>"

text \<open>
  The handler of \<^verbatim>\<open>src/unnamed/part_000\<close> leaves the listing to
  \<^verbatim>\<open>getGalleryAssetsByShareKey\<close> of \<^verbatim>\<open>./immich\<close>.
\<close>

definition shareApi_part000 :: "collaborators \<Rightarrow> request \<Rightarrow> response" where
  "shareApi_part000 env req =
     (case getGalleryAssetsByShareKey env (params_id req) of
        Throws \<Rightarrow> SendJson 404 error_envelope
      | Returns media \<Rightarrow> SendJson 200 (JObj [(''media'', media)]))"

section \<open>A concrete deployment\<close>

text \<open>
  A small instance of the collaborators: keys and ids are three and one characters long,
  the backend knows the share \<open>KEY\<close> with the single asset \<open>a\<close>, the cipher reverses its
  text, and the only credential that serialises is the one of password \<open>p\<close> that expires
  one hour after time \<open>0\<close>.
\<close>

definition example_share :: Share where
  "example_share = \<lparr>link = Some \<lparr>assets = [\<lparr>asset_id = ''a'', asset_type = AssetType_image\<rparr>]\<rparr>\<rparr>"

definition example_expires :: string where
  "example_expires = ''1970-01-01T01:00:00+00:00''"

definition example_credential :: json where
  "example_credential = JObj [(''password'', JStr ''p''), (''expires'', JStr example_expires)]"

definition example_env :: collaborators where
  "example_env =
     \<lparr>isKey = (\<lambda>k. length k = 3),
      isId = (\<lambda>i. length i = 1),
      ImageSize_values = [''thumbnail'', ''preview'', ''original''],
      getShareByKey = (\<lambda>k p. if k = ''KEY'' then Returns (Some example_share) else Returns None),
      getGalleryAssetsByShareKey = (\<lambda>k. Throws),
      decrypt = (\<lambda>p. if iv p = ''iv'' then Returns (rev (cr p)) else Throws),
      encrypt = (\<lambda>s. \<lparr>iv = ''iv'', cr = rev s\<rparr>),
      JSON_parse = (\<lambda>s. if s = ''credential'' then Returns example_credential else Throws),
      JSON_stringify = (\<lambda>j. if j = example_credential then ''credential'' else ''other''),
      toString = (\<lambda>v. case v of Some (JStr s) \<Rightarrow> s | _ \<Rightarrow> []),
      String_of = (\<lambda>v. ''value''),
      dayjs_valueOf = (\<lambda>v. if v = JStr example_expires then Some 3600000 else None),
      dayjs_format = (\<lambda>t. if t = 3600000 then example_expires else ''later''),
      session_read_only = (\<lambda>k. k \<in> set [''isChanged'', ''isNew'', ''isPopulated''])\<rparr>"

text \<open>\<^verbatim>\<open>GET /share/photo/KEY/a\<close> from a caller without session.\<close>

definition example_request :: request where
  "example_request =
     \<lparr>params_type = ''photo'', params_key = ''KEY'', params_id = ''a'', params_size = None,
      query_page = None, query_pageSize = None, headers_range = None,
      protocol = ''http'', host = Some ''localhost:3000'', body = JObj [],
      session = None, password = None\<rparr>"

text \<open>
  The same caller after \<^verbatim>\<open>POST /share/unlock\<close> with key \<open>KEY\<close> and password \<open>p\<close> at
  time \<open>0\<close>, and a caller whose cookie holds a pair that the cipher did not produce.
\<close>

definition example_unlocked :: request where
  "example_unlocked =
     example_request\<lparr>session := Some [''KEY'' \<mapsto> JObj [(''iv'', JStr ''iv''), (''cr'', JStr ''laitnederc'')]]\<rparr>"

definition example_tampered :: request where
  "example_tampered =
     example_request\<lparr>session := Some [''KEY'' \<mapsto> JObj [(''iv'', JStr ''forged''), (''cr'', JStr ''x'')]]\<rparr>"

text \<open>\<^verbatim>\<open>POST /share/unlock\<close> with body \<^verbatim>\<open>{key: "KEY", password: "p"}\<close> and an empty session.\<close>

definition example_unlock_request :: request where
  "example_unlock_request =
     example_request\<lparr>body := JObj [(''key'', JStr ''KEY''), (''password'', JStr ''p'')],
                     session := Some Map.empty\<rparr>"





section \<open>Shared facts\<close>

lemma decodeCookie_next: "\<exists>req'. decodeCookie env now req = Next req'"
  by (simp add: decodeCookie_def Let_def split: outcome.split)

lemma decodeCookie_params:
  assumes "decodeCookie env now req = Next req'"
  shows "params_key req' = params_key req" and "params_id req' = params_id req"
    and "params_size req' = params_size req" and "params_type req' = params_type req"
    and "headers_range req' = headers_range req"
  using assms
  by (auto simp: decodeCookie_def decodeCookie_try_def Let_def
      split: outcome.splits option.splits if_splits)

lemma shareAsset_with_invalid:
  assumes "\<not> isKey env (params_key req) \<or> \<not> isId env (params_id req) \<or> invalid_size env req"
  shows "shareAsset_with serve env req = \<lparr>response = Send 404 [], resolutions = []\<rparr>"
  using assms by (auto simp: shareAsset_with_def respondToInvalidRequest_def)

lemma route_with_invalid:
  assumes "\<not> isKey env (params_key req) \<or> \<not> isId env (params_id req) \<or> invalid_size env req"
  shows "route_with (shareAsset_with serve) env now req = \<lparr>response = Send 404 [], resolutions = []\<rparr>"
proof -
  obtain req' where nxt: "decodeCookie env now req = Next req'"
    using decodeCookie_next by blast
  have "invalid_size env req' = invalid_size env req"
    using decodeCookie_params [OF nxt] by (simp add: invalid_size_def)
  with assms decodeCookie_params [OF nxt]
  have "\<not> isKey env (params_key req') \<or> \<not> isId env (params_id req') \<or> invalid_size env req'"
    by simp
  then show ?thesis
    using nxt by (simp add: route_with_def shareAsset_with_invalid)
qed

section \<open>The asset route\<close>

text \<open>
  In the two copies of \<^verbatim>\<open>src/app/src/index.ts\<close> an id that is not in a non-empty share is
  answered with 404, and so is a key that the backend does not know.
\<close>

lemma serve_asset_unmatched:
  assumes "find (\<lambda>x. asset_id x = params_id req) (assets l) = None"
  shows "serve_asset req (Some l) = Send 404 []" and "serve_asset req None = Send 404 []"
  using assms by (simp_all add: serve_asset_def respondToInvalidRequest_def)

text \<open>
  C1. For a share whose asset list is not empty and holds no asset of the requested id,
  the handler answers 404, the answer it gives for a key that does not resolve. The handler
  of \<^verbatim>\<open>src/unnamed/part_000\<close> does not: for the share \<open>KEY\<close> with the single asset
  \<open>a\<close>, the request \<^verbatim>\<open>GET /share/photo/KEY/b\<close> ends without any response, where the
  handler of \<^verbatim>\<open>src/app/src/index.ts\<close> answers 404 with an empty body, as both do for
  the unknown key \<open>XYZ\<close>.
\<close>

theorem C1_part000_unmatched_id_no_response:
  "route_shareAsset_part000 example_env 0 (example_request\<lparr>params_id := ''b''\<rparr>)
     = \<lparr>response = NoResponse, resolutions = [(''KEY'', None)]\<rparr>
   \<and> route_shareAsset example_env 0 (example_request\<lparr>params_id := ''b''\<rparr>)
     = \<lparr>response = Send 404 [], resolutions = [(''KEY'', None)]\<rparr>
   \<and> route_shareAsset_part000 example_env 0 (example_request\<lparr>params_key := ''XYZ''\<rparr>)
     = \<lparr>response = Send 404 [], resolutions = [(''XYZ'', None)]\<rparr>
   \<and> route_shareAsset example_env 0 (example_request\<lparr>params_key := ''XYZ''\<rparr>)
     = \<lparr>response = Send 404 [], resolutions = [(''XYZ'', None)]\<rparr>"
  by (simp add: route_shareAsset_part000_def route_shareAsset_def route_with_def
      decodeCookie_def session_entry_def shareAsset_def shareAsset_part000_def
      shareAsset_with_def serve_asset_def serve_asset_part000_def invalid_size_def
      link_of_def respondToInvalidRequest_def example_env_def example_request_def
      example_share_def)

text \<open>
  C6. When the key fails \<^verbatim>\<open>isKey\<close>, or the id fails \<^verbatim>\<open>isId\<close>, or a size segment is
  present and is not a value of \<^verbatim>\<open>ImageSize\<close>, the route answers 404 and has made no
  call of \<^verbatim>\<open>getShareByKey\<close>, whatever the backend would answer. This holds for the
  handler of either copy of the file.
\<close>

theorem C6_invalid_parameters_404_before_resolution:
  assumes "\<not> isKey env (params_key req) \<or> \<not> isId env (params_id req)
           \<or> (\<exists>s. params_size req = Some s \<and> s \<noteq> [] \<and> s \<notin> set (ImageSize_values env))"
  shows "route_shareAsset (env\<lparr>getShareByKey := backend\<rparr>) now req
           = \<lparr>response = Send 404 [], resolutions = []\<rparr>
         \<and> route_shareAsset_part000 (env\<lparr>getShareByKey := backend\<rparr>) now req
           = \<lparr>response = Send 404 [], resolutions = []\<rparr>"
proof -
  let ?env = "env\<lparr>getShareByKey := backend\<rparr>"
  have "\<not> isKey ?env (params_key req) \<or> \<not> isId ?env (params_id req) \<or> invalid_size ?env req"
    using assms by (auto simp: invalid_size_def)
  then show ?thesis
    unfolding route_shareAsset_def route_shareAsset_part000_def shareAsset_def
      shareAsset_part000_def
    by (simp add: route_with_invalid)
qed

theorem C6_invalid_parameters_witness:
  "\<not> isKey example_env (params_key (example_request\<lparr>params_key := ''bad key''\<rparr>))
   \<and> route_shareAsset (example_env\<lparr>getShareByKey := (\<lambda>k p. Throws)\<rparr>) 0
        (example_request\<lparr>params_key := ''bad key''\<rparr>)
      = \<lparr>response = Send 404 [], resolutions = []\<rparr>
   \<and> route_shareAsset_part000 (example_env\<lparr>getShareByKey := (\<lambda>k p. Throws)\<rparr>) 0
        (example_request\<lparr>params_key := ''bad key''\<rparr>)
      = \<lparr>response = Send 404 [], resolutions = []\<rparr>"
proof -
  have bad: "\<not> isKey example_env (params_key (example_request\<lparr>params_key := ''bad key''\<rparr>))"
    by (simp add: example_env_def)
  then have "\<not> isKey example_env (params_key (example_request\<lparr>params_key := ''bad key''\<rparr>))
      \<or> \<not> isId example_env (params_id (example_request\<lparr>params_key := ''bad key''\<rparr>))
      \<or> (\<exists>s. params_size (example_request\<lparr>params_key := ''bad key''\<rparr>) = Some s \<and> s \<noteq> []
            \<and> s \<notin> set (ImageSize_values example_env))"
    by simp
  from C6_invalid_parameters_404_before_resolution [OF this, of "\<lambda>k p. Throws" 0] bad
  show ?thesis by simp
qed

lemma find_holds: "find P xs = Some x \<Longrightarrow> P x"
  by (induction xs) (auto split: if_splits)

lemma served_asset:
  assumes "serve req sharedLink = AssetBuffer k r a s"
    and "serve = serve_asset \<or> serve = serve_asset_part000"
  shows "asset_id a = params_id req
         \<and> asset_type a = (if params_type req = ''video'' then AssetType_video else AssetType_image)"
proof (cases sharedLink)
  case None
  with assms show ?thesis
    by (auto simp: serve_asset_def serve_asset_part000_def respondToInvalidRequest_def)
next
  case (Some l)
  show ?thesis
  proof (cases "find (\<lambda>x. asset_id x = params_id req) (assets l)")
    case None
    with Some assms show ?thesis
      by (auto simp: serve_asset_def serve_asset_part000_def respondToInvalidRequest_def
          split: if_splits)
  next
    case found: (Some x)
    then have "asset_id x = params_id req"
      by (rule find_holds)
    moreover from found Some assms have "a = typed req x"
      by (auto simp: serve_asset_def serve_asset_part000_def respondToInvalidRequest_def
          split: if_splits)
    ultimately show ?thesis
      by (simp add: typed_def)
  qed
qed

lemma shareAsset_with_served:
  assumes "response (shareAsset_with serve env req) = AssetBuffer k r a s"
    and "serve = serve_asset \<or> serve = serve_asset_part000"
  shows "asset_id a = params_id req
         \<and> asset_type a = (if params_type req = ''video'' then AssetType_video else AssetType_image)"
proof -
  from assms(1) obtain sharedLink where "serve req sharedLink = AssetBuffer k r a s"
    by (auto simp: shareAsset_with_def respondToInvalidRequest_def
        split: outcome.splits if_splits)
  then show ?thesis
    using assms(2) by (rule served_asset)
qed

lemma route_with_served:
  assumes "response (route_with (shareAsset_with serve) env now req) = AssetBuffer k r a s"
    and "serve = serve_asset \<or> serve = serve_asset_part000"
  shows "asset_id a = params_id req
         \<and> asset_type a = (if params_type req = ''video'' then AssetType_video else AssetType_image)"
proof -
  obtain req' where nxt: "decodeCookie env now req = Next req'"
    using decodeCookie_next by blast
  with assms(1) have "response (shareAsset_with serve env req') = AssetBuffer k r a s"
    by (simp add: route_with_def)
  from shareAsset_with_served [OF this assms(2)] decodeCookie_params [OF nxt]
  show ?thesis by simp
qed

text \<open>
  C9. An asset that the route serves carries the type \<open>video\<close> exactly when the route
  segment is \<^verbatim>\<open>video\<close>, and \<open>image\<close> otherwise; the same key and id served through
  \<^verbatim>\<open>photo\<close> and through \<^verbatim>\<open>video\<close> give the same asset with the two different
  types. An asset that is found in the resolved share is served, with that type, by the
  handler of either copy of the file.
\<close>

theorem C9_media_type_from_route:
  "(response (route_shareAsset env now req) = AssetBuffer k r a s
      \<or> response (route_shareAsset_part000 env now req) = AssetBuffer k r a s
    \<longrightarrow> (asset_type a = AssetType_video \<longleftrightarrow> params_type req = ''video'')
        \<and> (asset_type a = AssetType_image \<longleftrightarrow> params_type req \<noteq> ''video''))
   \<and> (response (route_shareAsset env now (req\<lparr>params_type := ''photo''\<rparr>)) = AssetBuffer k1 r1 a1 s1
      \<and> response (route_shareAsset env now (req\<lparr>params_type := ''video''\<rparr>)) = AssetBuffer k2 r2 a2 s2
    \<longrightarrow> asset_id a1 = asset_id a2 \<and> asset_type a1 = AssetType_image \<and> asset_type a2 = AssetType_video)
   \<and> (\<forall>share l x. isKey env (params_key req) \<and> isId env (params_id req)
          \<and> \<not> invalid_size env req
          \<and> getShareByKey env (params_key req) (password req) = Returns share
          \<and> link_of share = Some l
          \<and> find (\<lambda>x. asset_id x = params_id req) (assets l) = Some x
        \<longrightarrow> response (shareAsset env req)
              = AssetBuffer (params_key req) (range_of req)
                  (x\<lparr>asset_type := (if params_type req = ''video'' then AssetType_video
                                     else AssetType_image)\<rparr>) (params_size req)
          \<and> response (shareAsset_part000 env req) = response (shareAsset env req))"
proof -
  have one: "asset_id a = params_id q
      \<and> asset_type a = (if params_type q = ''video'' then AssetType_video else AssetType_image)"
    if "response (route_shareAsset env now q) = AssetBuffer k r a s
        \<or> response (route_shareAsset_part000 env now q) = AssetBuffer k r a s" for q k r a s
    using that route_with_served [of serve_asset env now q k r a s]
      route_with_served [of serve_asset_part000 env now q k r a s]
    by (auto simp: route_shareAsset_def route_shareAsset_part000_def shareAsset_def
        shareAsset_part000_def)
  have first: "response (route_shareAsset env now req) = AssetBuffer k r a s
      \<or> response (route_shareAsset_part000 env now req) = AssetBuffer k r a s
    \<longrightarrow> (asset_type a = AssetType_video \<longleftrightarrow> params_type req = ''video'')
        \<and> (asset_type a = AssetType_image \<longleftrightarrow> params_type req \<noteq> ''video'')"
    using one [of req k r a s] by auto
  have second: "response (route_shareAsset env now (req\<lparr>params_type := ''photo''\<rparr>)) = AssetBuffer k1 r1 a1 s1
      \<and> response (route_shareAsset env now (req\<lparr>params_type := ''video''\<rparr>)) = AssetBuffer k2 r2 a2 s2
    \<longrightarrow> asset_id a1 = asset_id a2 \<and> asset_type a1 = AssetType_image \<and> asset_type a2 = AssetType_video"
    using one [of "req\<lparr>params_type := ''photo''\<rparr>" k1 r1 a1 s1]
      one [of "req\<lparr>params_type := ''video''\<rparr>" k2 r2 a2 s2]
    by auto
  have third: "\<forall>share l x. isKey env (params_key req) \<and> isId env (params_id req)
          \<and> \<not> invalid_size env req
          \<and> getShareByKey env (params_key req) (password req) = Returns share
          \<and> link_of share = Some l
          \<and> find (\<lambda>x. asset_id x = params_id req) (assets l) = Some x
        \<longrightarrow> response (shareAsset env req)
              = AssetBuffer (params_key req) (range_of req)
                  (x\<lparr>asset_type := (if params_type req = ''video'' then AssetType_video
                                     else AssetType_image)\<rparr>) (params_size req)
          \<and> response (shareAsset_part000 env req) = response (shareAsset env req)"
    by (auto simp: shareAsset_def shareAsset_part000_def shareAsset_with_def serve_asset_def
        serve_asset_part000_def typed_def)
  from first second third show ?thesis by blast
qed

theorem C9_media_type_witness:
  "response (route_shareAsset example_env 0 (example_request\<lparr>params_type := ''photo''\<rparr>))
     = AssetBuffer ''KEY'' [] \<lparr>asset_id = ''a'', asset_type = AssetType_image\<rparr> None
   \<and> response (route_shareAsset example_env 0 (example_request\<lparr>params_type := ''video''\<rparr>))
     = AssetBuffer ''KEY'' [] \<lparr>asset_id = ''a'', asset_type = AssetType_video\<rparr> None
   \<and> asset_type \<lparr>asset_id = ''a'', asset_type = AssetType_image\<rparr>
       \<noteq> asset_type \<lparr>asset_id = ''a'', asset_type = AssetType_video\<rparr>"
proof -
  have photo: "response (route_shareAsset example_env 0 (example_request\<lparr>params_type := ''photo''\<rparr>))
     = AssetBuffer ''KEY'' [] \<lparr>asset_id = ''a'', asset_type = AssetType_image\<rparr> None"
    by (simp add: route_shareAsset_def route_with_def decodeCookie_def session_entry_def
        shareAsset_def shareAsset_with_def serve_asset_def invalid_size_def link_of_def
        typed_def range_of_def example_env_def example_request_def example_share_def)
  have video: "response (route_shareAsset example_env 0 (example_request\<lparr>params_type := ''video''\<rparr>))
     = AssetBuffer ''KEY'' [] \<lparr>asset_id = ''a'', asset_type = AssetType_video\<rparr> None"
    by (simp add: route_shareAsset_def route_with_def decodeCookie_def session_entry_def
        shareAsset_def shareAsset_with_def serve_asset_def invalid_size_def link_of_def
        typed_def range_of_def example_env_def example_request_def example_share_def)
  from C9_media_type_from_route [of example_env 0 example_request "''KEY''" "[]"
      "\<lparr>asset_id = ''a'', asset_type = AssetType_image\<rparr>" None "''KEY''" "[]"
      "\<lparr>asset_id = ''a'', asset_type = AssetType_image\<rparr>" None "''KEY''" "[]"
      "\<lparr>asset_id = ''a'', asset_type = AssetType_video\<rparr>" None] photo video
  show ?thesis by simp
qed

section \<open>The password gate\<close>

text \<open>
  C2. On a request that carries no password yet, \<^verbatim>\<open>decodeCookie\<close> attaches the password
  \<open>pw\<close> only if the session holds an entry for the share key, the pair of that entry
  decrypts, the plain text parses as JSON, the payload has the property
  \<^verbatim>\<open>password\<close> with value \<open>pw\<close> and a property \<^verbatim>\<open>expires\<close>, and the time of
  \<^verbatim>\<open>expires\<close> is strictly after the current time.
\<close>

theorem C2_password_attached_only_if_valid_credential:
  assumes "decodeCookie env now req = Next req'"
    and "password req = None"
    and "password req' = Some pw"
  shows "\<exists>store entry plain payload e t.
           session req = Some store \<and> store (params_key req) = Some entry
           \<and> decrypt env (stored_pair env (Some entry)) = Returns plain
           \<and> JSON_parse env plain = Returns payload
           \<and> get payload ''password'' = Some pw
           \<and> get payload ''expires'' = Some e
           \<and> dayjs_valueOf env e = Some t \<and> now < t"
proof -
  have gate: "truthy_opt (opt_get (session_entry req) ''iv'')"
    and tried: "decodeCookie_try env now (session_entry req) req = Returns req'"
    using assms
    by (auto simp: decodeCookie_def Let_def split: outcome.splits if_splits)
  from gate obtain store entry where "session req = Some store"
    and "store (params_key req) = Some entry" and "session_entry req = Some entry"
    by (cases "session req"; cases "session_entry req") (auto simp: session_entry_def)
  with tried assms(2,3) show ?thesis
    by (auto simp: decodeCookie_try_def dayjs_after_def
        split: outcome.splits option.splits if_splits)
qed

theorem C2_password_attached_witness:
  "decodeCookie example_env 0 example_unlocked = Next (example_unlocked\<lparr>password := Some (JStr ''p'')\<rparr>)
   \<and> password example_unlocked = None
   \<and> (\<exists>store entry plain payload e t.
           session example_unlocked = Some store \<and> store (params_key example_unlocked) = Some entry
           \<and> decrypt example_env (stored_pair example_env (Some entry)) = Returns plain
           \<and> JSON_parse example_env plain = Returns payload
           \<and> get payload ''password'' = Some (JStr ''p'')
           \<and> get payload ''expires'' = Some e
           \<and> dayjs_valueOf example_env e = Some t \<and> 0 < t)"
proof -
  have run: "decodeCookie example_env 0 example_unlocked
      = Next (example_unlocked\<lparr>password := Some (JStr ''p'')\<rparr>)"
    by (simp add: decodeCookie_def decodeCookie_try_def session_entry_def dayjs_after_def
        stored_pair_def example_env_def example_unlocked_def example_request_def
        example_credential_def example_expires_def)
  have fresh: "password example_unlocked = None"
    by (simp add: example_unlocked_def example_request_def)
  have "password (example_unlocked\<lparr>password := Some (JStr ''p'')\<rparr>) = Some (JStr ''p'')"
    by simp
  from C2_password_attached_only_if_valid_credential [OF run fresh this] run fresh
  show ?thesis by blast
qed

text \<open>
  C7. \<^verbatim>\<open>decodeCookie\<close> always calls \<^verbatim>\<open>next()\<close>: no exception leaves it and the handler
  of the route runs. When the session has no entry for the key, when \<^verbatim>\<open>decrypt\<close> or
  \<^verbatim>\<open>JSON.parse\<close> throws, when the payload has no \<^verbatim>\<open>expires\<close> or one that is not
  after the current time, or when it has no \<^verbatim>\<open>password\<close>, the request goes on
  unchanged, without a password.
\<close>

theorem C7_password_gate_never_aborts:
  "(\<exists>req'. decodeCookie env now req = Next req'
           \<and> route_with handler env now req = handler env req')
   \<and> (session_entry req = None \<longrightarrow> decodeCookie env now req = Next req)
   \<and> (decrypt env (stored_pair env (session_entry req)) = Throws
        \<longrightarrow> decodeCookie env now req = Next req)
   \<and> (\<forall>plain. decrypt env (stored_pair env (session_entry req)) = Returns plain
          \<and> JSON_parse env plain = Throws
        \<longrightarrow> decodeCookie env now req = Next req)
   \<and> (\<forall>plain payload. decrypt env (stored_pair env (session_entry req)) = Returns plain
          \<and> JSON_parse env plain = Returns payload
          \<and> (get payload ''expires'' = None
              \<or> (\<exists>e. get payload ''expires'' = Some e \<and> \<not> dayjs_after env e now))
        \<longrightarrow> decodeCookie env now req = Next req)
   \<and> (\<forall>plain payload. decrypt env (stored_pair env (session_entry req)) = Returns plain
          \<and> JSON_parse env plain = Returns payload
          \<and> get payload ''password'' = None \<and> password req = None
        \<longrightarrow> decodeCookie env now req = Next req)"
proof -
  obtain req' where nxt: "decodeCookie env now req = Next req'"
    using decodeCookie_next by blast
  then have "route_with handler env now req = handler env req'"
    by (simp add: route_with_def)
  with nxt have first: "\<exists>req'. decodeCookie env now req = Next req'
      \<and> route_with handler env now req = handler env req'"
    by blast
  have absent: "session_entry req = None \<longrightarrow> decodeCookie env now req = Next req"
    by (simp add: decodeCookie_def Let_def)
  have rest: "decodeCookie_try env now (session_entry req) req = Throws
      \<or> decodeCookie_try env now (session_entry req) req = Returns req
      \<Longrightarrow> decodeCookie env now req = Next req"
    by (auto simp: decodeCookie_def Let_def)
  show ?thesis
    using first absent
    by (auto intro!: rest simp: decodeCookie_try_def split: option.splits)
qed

theorem C7_password_gate_witness:
  "decrypt example_env (stored_pair example_env (session_entry example_tampered)) = Throws
   \<and> decodeCookie example_env 0 example_tampered = Next example_tampered
   \<and> route_shareAsset example_env 0 example_tampered = shareAsset example_env example_tampered"
proof -
  have thrown: "decrypt example_env (stored_pair example_env (session_entry example_tampered)) = Throws"
    by (simp add: stored_pair_def session_entry_def example_env_def example_tampered_def
        example_request_def)
  from C7_password_gate_never_aborts [of example_env 0 example_tampered shareAsset] thrown
  show ?thesis by (auto simp: route_shareAsset_def)
qed

section \<open>The unlock endpoint\<close>




text \<open>
  C10, as stated, fails in two places. The non-empty key \<^verbatim>\<open>__proto__\<close> stores nothing.
  And not every other endpoint rejects a key that \<^verbatim>\<open>isKey\<close> rejects: the listing handler
  never calls \<^verbatim>\<open>isKey\<close>, it resolves such a key and, with a backend that knows it,
  answers 200.
\<close>

theorem C10_unlock_counterexample:
  "route_unlock example_env 0
        (Posted (JObj [(''key'', JStr ''__proto__''), (''password'', JStr ''p'')]))
        example_unlock_request
     = (example_unlock_request\<lparr>body := JObj [(''key'', JStr ''__proto__''), (''password'', JStr ''p'')]\<rparr>,
        Send 200 [])
   \<and> session example_unlock_request = Some Map.empty
   \<and> \<not> isKey (example_env\<lparr>getShareByKey := (\<lambda>k p. Returns (Some example_share))\<rparr>) ''no such key''
   \<and> shareApi (example_env\<lparr>getShareByKey := (\<lambda>k p. Returns (Some example_share))\<rparr>)
        (example_request\<lparr>params_id := ''no such key''\<rparr>)
     = \<lparr>response = SendJson 200
          (JObj [(''media'',
                  JArr [JObj [(''id'', JStr ''a''),
                              (''thumbUrl'', JStr ''https://i.techie.pics/share/photo/no such key/a/thumbnail''),
                              (''previewUrl'', JStr ''https://i.techie.pics/share/photo/no such key/a/preview''),
                              (''originalUrl'', JStr ''https://i.techie.pics/share/photo/no such key/a/original'')]]),
                 (''page'', JNum 1), (''pageSize'', JNum 20), (''total'', JNum 1)]),
        resolutions = [(''no such key'', Some (JStr []))]\<rparr>"
  by (simp add: route_unlock_def unlock_def assign_def example_unlock_request_def
      shareApi_def shareApi_try_def listing_def link_of_def media_item_def base_def
      page_of_def pageSize_of_def parseInt_query_def or_default_def sub_def
      round_to_double_def slice_def example_env_def example_request_def example_share_def)

text \<open>
  C10, amended. \<^verbatim>\<open>POST /share/unlock\<close> with a session and a key that is a non-empty
  string, other than \<^verbatim>\<open>__proto__\<close> and the read-only names of the session object,
  stores under that key the encrypted credential of the
  body's password that expires in one hour, whether \<^verbatim>\<open>isKey\<close> accepts the key or not,
  and answers 200. When \<^verbatim>\<open>isKey\<close> rejects the key, the asset route answers every
  request for it with 404 before it resolves anything; the listing handlers do not check the
  key and resolve it.
\<close>

theorem C10_unlock_does_not_validate_key:
  assumes "session req = Some store"
    and "get b ''key'' = Some (JStr k)"
    and "k \<noteq> []"
    and "k \<noteq> ''__proto__''"
    and "\<not> session_read_only env k"
  shows "(let C = JObj ((case get b ''password'' of None \<Rightarrow> [] | Some p \<Rightarrow> [(''password'', p)])
                        @ [(''expires'', JStr (dayjs_format env (now + 60 * 60 * 1000)))]);
              P = encrypt env (JSON_stringify env C)
          in route_unlock env now (Posted b) req
               = (req\<lparr>body := b,
                      session := Some (store(k \<mapsto> JObj [(''iv'', JStr (iv P)), (''cr'', JStr (cr P))]))\<rparr>,
                  Send 200 []))
         \<and> (\<not> isKey env k \<longrightarrow>
              (\<forall>r t. params_key r = k \<longrightarrow>
                 route_shareAsset env t r = \<lparr>response = Send 404 [], resolutions = []\<rparr>
                 \<and> route_shareAsset_part000 env t r = \<lparr>response = Send 404 [], resolutions = []\<rparr>))
         \<and> (\<forall>r. params_id r = k \<longrightarrow>
               resolutions (shareApi env r) = [(k, Some (JStr []))]
               \<and> resolutions (shareApi_origin env r) = [(k, Some (JStr []))])"
proof -
  have stored: "(let C = JObj ((case get b ''password'' of None \<Rightarrow> [] | Some p \<Rightarrow> [(''password'', p)])
                        @ [(''expires'', JStr (dayjs_format env (now + 60 * 60 * 1000)))]);
              P = encrypt env (JSON_stringify env C)
          in route_unlock env now (Posted b) req
               = (req\<lparr>body := b,
                      session := Some (store(k \<mapsto> JObj [(''iv'', JStr (iv P)), (''cr'', JStr (cr P))]))\<rparr>,
                  Send 200 []))"
    using assms
    by (simp add: route_unlock_def unlock_def unlock_credential_def credential_def pair_json_def
        assign_def hour_def Let_def)
  have rejected: "route_with (shareAsset_with serve) env t r
      = \<lparr>response = Send 404 [], resolutions = []\<rparr>"
    if "\<not> isKey env k" and "params_key r = k" for serve t r
    using that by (simp add: route_with_invalid)
  then have asset: "\<not> isKey env k \<longrightarrow>
      (\<forall>r t. params_key r = k \<longrightarrow>
         route_shareAsset env t r = \<lparr>response = Send 404 [], resolutions = []\<rparr>
         \<and> route_shareAsset_part000 env t r = \<lparr>response = Send 404 [], resolutions = []\<rparr>)"
    by (simp add: route_shareAsset_def route_shareAsset_part000_def shareAsset_def
        shareAsset_part000_def)
  have resolved: "\<forall>r. params_id r = k \<longrightarrow>
      resolutions (shareApi env r) = [(k, Some (JStr []))]
      \<and> resolutions (shareApi_origin env r) = [(k, Some (JStr []))]"
    by (simp add: shareApi_def shareApi_origin_def)
  from stored asset resolved show ?thesis
    by (intro conjI)
qed

theorem C10_unlock_witness:
  "session example_unlock_request = Some Map.empty
   \<and> \<not> session_read_only example_env ''no such key''
   \<and> \<not> isKey example_env ''no such key''
   \<and> route_unlock example_env 0 (Posted (JObj [(''key'', JStr ''no such key'')]))
        example_unlock_request
      = (example_unlock_request\<lparr>body := JObj [(''key'', JStr ''no such key'')],
           session := Some [''no such key'' \<mapsto> JObj [(''iv'', JStr ''iv''), (''cr'', JStr ''rehto'')]]\<rparr>,
         Send 200 [])
   \<and> route_shareAsset example_env 0 (example_request\<lparr>params_key := ''no such key''\<rparr>)
      = \<lparr>response = Send 404 [], resolutions = []\<rparr>
   \<and> resolutions (shareApi example_env (example_request\<lparr>params_id := ''no such key''\<rparr>))
      = [(''no such key'', Some (JStr []))]"
proof -
  let ?b = "JObj [(''key'', JStr ''no such key'')]"
  have a: "session example_unlock_request = Some Map.empty"
    by (simp add: example_unlock_request_def)
  have b: "get ?b ''key'' = Some (JStr ''no such key'')"
    by simp
  have c: "''no such key'' \<noteq> []" "''no such key'' \<noteq> ''__proto__''"
    "\<not> session_read_only example_env ''no such key''"
    by (simp_all add: example_env_def)
  have d: "\<not> isKey example_env ''no such key''"
    by (simp add: example_env_def)
  have cipher: "encrypt example_env (JSON_stringify example_env
      (JObj ([] @ [(''expires'', JStr (dayjs_format example_env (0 + 60 * 60 * 1000)))])))
      = \<lparr>iv = ''iv'', cr = ''rehto''\<rparr>"
    by (simp add: example_env_def example_credential_def example_expires_def)
  from C10_unlock_does_not_validate_key [OF a b c, of 0] d cipher a c(3)
  show ?thesis by (simp add: Let_def)
qed

section \<open>The gallery listing\<close>

subsection \<open>Rounding to a double\<close>


lemma round_lower:
  assumes "2 ^ 53 \<le> n"
  obtains v where "round_to_double n = (if 2 ^ 1024 \<le> v then Infinity else Num v)"
    and "2 ^ (nat (bitlen n) - 1) \<le> v" and "53 < nat (bitlen n)" and "n < 2 ^ nat (bitlen n)"
proof -
  define b where "b = nat (bitlen n)"
  define q :: int where "q = 2 ^ (b - 53)"
  define m where "m = n div q"
  define m' where "m' = (if 2 * (n mod q) < q then m
      else if q < 2 * (n mod q) then m + 1 else if even m then m else m + 1)"
  from assms have pos: "0 < n"
    by simp
  have "nat (bitlen n - 1) = nat (bitlen n) - 1"
    by arith
  with pos have bounds: "2 ^ (b - 1) \<le> n" "n < 2 ^ b"
    using bitlen_bounds [of n] by (simp_all add: b_def)
  from assms bounds(2) have "(2::int) ^ 53 < 2 ^ b"
    by linarith
  have b: "53 < b"
  proof (rule ccontr)
    assume "\<not> 53 < b"
    then have "b \<le> 53"
      by simp
    then have "(2::int) ^ b \<le> 2 ^ 53"
      by (rule power_increasing) simp
    with \<open>(2::int) ^ 53 < 2 ^ b\<close> show False
      by linarith
  qed
  have qpos: "0 < q"
    by (simp add: q_def)
  from b have "b - 1 = 52 + (b - 53)"
    by simp
  then have split: "(2::int) ^ (b - 1) = 2 ^ 52 * q"
    by (simp only: power_add q_def)
  have "2 ^ 52 \<le> m"
  proof -
    from bounds(1) split have "2 ^ 52 * q \<le> n"
      by simp
    then have "(2 ^ 52 * q) div q \<le> n div q"
      by (rule zdiv_mono1) (rule qpos)
    with qpos show ?thesis
      by (simp add: m_def)
  qed
  moreover have "m \<le> m'"
    by (simp add: m'_def)
  ultimately have "2 ^ 52 \<le> m'"
    by linarith
  then have "2 ^ 52 * q \<le> m' * q"
    using qpos by (simp add: mult_right_mono)
  with split have lower: "2 ^ (b - 1) \<le> m' * q"
    by (simp only:)
  from assms pos have "round_to_double n
      = (if 2 ^ 1024 \<le> m' * q then Infinity else Num (m' * q))"
    by (simp add: round_to_double_def Let_def b_def q_def m_def m'_def)
  with lower b bounds(2) show ?thesis
    using that [of "m' * q"] unfolding b_def by blast
qed

lemma round_large:
  assumes "2 ^ 53 \<le> n"
  shows "round_to_double n = Infinity \<or> (\<exists>m. round_to_double n = Num m \<and> 2 ^ 53 \<le> m)"
proof -
  from assms obtain v where v: "round_to_double n = (if 2 ^ 1024 \<le> v then Infinity else Num v)"
    and lower: "2 ^ (nat (bitlen n) - 1) \<le> v" and b: "53 < nat (bitlen n)"
    by (rule round_lower)
  from b have "53 \<le> nat (bitlen n) - 1"
    by simp
  then have "(2::int) ^ 53 \<le> 2 ^ (nat (bitlen n) - 1)"
    by (rule power_increasing) simp
  with lower have "2 ^ 53 \<le> v"
    by linarith
  with v show ?thesis
    by auto
qed

lemma round_overflow:
  assumes "2 ^ 1024 \<le> n"
  shows "round_to_double n = Infinity"
proof -
  have "(2::int) ^ 53 \<le> 2 ^ 1024"
    by (rule power_increasing) simp_all
  with assms have "2 ^ 53 \<le> n"
    by linarith
  then obtain v where v: "round_to_double n = (if 2 ^ 1024 \<le> v then Infinity else Num v)"
    and lower: "2 ^ (nat (bitlen n) - 1) \<le> v" and less: "n < 2 ^ nat (bitlen n)"
    by (rule round_lower)
  from assms less have "(2::int) ^ 1024 < 2 ^ nat (bitlen n)"
    by linarith
  then have "1024 < nat (bitlen n)"
    by (simp only: power_strict_increasing_iff) 
  then have "1024 \<le> nat (bitlen n) - 1"
    by simp
  then have "(2::int) ^ 1024 \<le> 2 ^ (nat (bitlen n) - 1)"
    by (rule power_increasing) simp
  with lower have "2 ^ 1024 \<le> v"
    by linarith
  with v show ?thesis
    by (simp only: if_True)
qed

lemma round_huge: "2 ^ 53 \<le> n \<Longrightarrow> huge (round_to_double n)"
  using round_large [of n] by (simp add: huge_def)



lemma huge_cases:
  assumes "huge a"
  obtains "a = Infinity" | m where "a = Num m" and "2 ^ 53 \<le> m"
  using assms by (auto simp: huge_def)


lemma huge_add:
  assumes "huge a" and "0 < ps"
  shows "huge (add a (Num ps))"
  using assms(1)
proof (cases rule: huge_cases)
  case 1
  then show ?thesis
    by (simp add: huge_def)
next
  case (2 m)
  with assms(2) have "2 ^ 53 \<le> m + ps"
    by linarith
  then have "huge (round_to_double (m + ps))"
    by (rule round_huge)
  with 2(1) show ?thesis
    by simp
qed

subsection \<open>Facts about \<^verbatim>\<open>slice\<close>\<close>


lemma set_slice: "set (slice a b xs) \<subseteq> set xs"
  using set_take_subset [of _ "drop _ xs"] set_drop_subset [of _ xs]
  by (fastforce simp: slice_def Let_def)






subsection \<open>Facts about \<^verbatim>\<open>parseInt\<close>\<close>







lemma parseInt_no_break_space: "parseInt [CHR 0xC2, CHR 0xA0, CHR ''2''] = Num 2"
  by (simp add: parseInt_def strip_sign_def strip_prefix_def white1_def white2_def
      white3_def radix_digit_def digit_value_def digits_number_def round_to_double_def)

lemma bitlen_54: "bitlen 9007199254740993 = 54"
proof -
  have "54 \<le> bitlen 9007199254740993"
    by (simp add: bitlen_ge_iff_power)
  moreover have "bitlen 9007199254740993 \<le> 54"
    by (simp add: bitlen_le_iff_power)
  ultimately show ?thesis
    by simp
qed

lemma parseInt_rounds: "parseInt ''9007199254740993'' = Num 9007199254740992"
  by (simp add: parseInt_def strip_sign_def strip_prefix_def white1_def white2_def
      white3_def radix_digit_def digit_value_def digits_number_def round_to_double_def bitlen_54)

subsection \<open>The example gallery\<close>





subsection \<open>Pagination parameters\<close>




subsection \<open>The page of a listing\<close>




subsection \<open>Resolution and projection\<close>

text \<open>
  C5, as stated, fails for the first handler of \<^verbatim>\<open>src/app/src/index.ts\<close>: its media
  elements have no \<^verbatim>\<open>previewUrl\<close>, and their links start with the protocol and host of
  the request, not with a fixed base.
\<close>

theorem C5_origin_listing_counterexample:
  "response (shareApi_origin example_env (example_request\<lparr>params_id := ''KEY''\<rparr>))
     = SendJson 200
         (JObj [(''media'',
                 JArr [JObj [(''id'', JStr ''a''),
                             (''thumbUrl'', JStr ''http://localhost:3000/share/photo/KEY/a/thumb''),
                             (''originalUrl'', JStr ''http://localhost:3000/share/photo/KEY/a'')]])])"
  by (simp add: shareApi_origin_def shareApi_origin_try_def media_item_origin_def origin_def
      link_of_def example_env_def example_request_def example_share_def)

text \<open>
  C5, amended. Both handlers of \<^verbatim>\<open>src/app/src/index.ts\<close> resolve the share once, with
  the empty password, and answer 404 with the envelope
  \<^verbatim>\<open>{ error: "Invalid or expired share key" }\<close> when the resolution throws, gives no
  link, or gives no asset. Otherwise the paginated handler answers 200 with media elements
  \<^verbatim>\<open>{ id, thumbUrl, previewUrl, originalUrl }\<close> of assets of the share, built from the
  base \<^verbatim>\<open>https://i.techie.pics\<close>, the key and the id; the other handler answers 200 with
  \<^verbatim>\<open>{ id, thumbUrl, originalUrl }\<close> for every asset, built from the protocol and host of
  the request. The handler of \<^verbatim>\<open>src/unnamed/part_000\<close> answers with what
  \<^verbatim>\<open>getGalleryAssetsByShareKey\<close> returns, and with the same 404 envelope when it throws.
\<close>

text \<open>
  C5, amended. Both handlers of \<^verbatim>\<open>src/app/src/index.ts\<close> resolve the share once, with
  the empty password, and answer 404 with the envelope
  \<^verbatim>\<open>{ error: "Invalid or expired share key" }\<close> when the resolution throws, gives no
  link, or gives no asset. Otherwise the paginated handler answers 200 with media elements
  \<^verbatim>\<open>{ id, thumbUrl, previewUrl, originalUrl }\<close> of assets of the share, built from the
  base \<^verbatim>\<open>https://i.techie.pics\<close>, the key and the id; the other handler answers 200 with
  \<^verbatim>\<open>{ id, thumbUrl, originalUrl }\<close> for every asset, built from the protocol and host of
  the request. The handler of \<^verbatim>\<open>src/unnamed/part_000\<close> answers with what
  \<^verbatim>\<open>getGalleryAssetsByShareKey\<close> returns, and with the same 404 envelope when it throws.
\<close>

theorem C5_listing_resolution_and_projection:
  "resolutions (shareApi env req) = [(params_id req, Some (JStr []))]
   \<and> resolutions (shareApi_origin env req) = [(params_id req, Some (JStr []))]
   \<and> (getShareByKey env (params_id req) (Some (JStr [])) = Throws
        \<or> (\<exists>share. getShareByKey env (params_id req) (Some (JStr [])) = Returns share
              \<and> (link_of share = None \<or> (\<exists>l. link_of share = Some l \<and> assets l = [])))
      \<longrightarrow> response (shareApi env req)
            = SendJson 404 (JObj [(''error'', JStr ''Invalid or expired share key'')])
        \<and> response (shareApi_origin env req)
            = SendJson 404 (JObj [(''error'', JStr ''Invalid or expired share key'')]))
   \<and> (\<forall>share l. getShareByKey env (params_id req) (Some (JStr [])) = Returns share
          \<and> link_of share = Some l \<and> assets l \<noteq> []
        \<longrightarrow> (\<exists>media page pageSize total.
               response (shareApi env req)
                 = SendJson 200 (JObj [(''media'', JArr media), (''page'', page),
                                       (''pageSize'', pageSize), (''total'', total)])
               \<and> (\<forall>m \<in> set media. \<exists>a \<in> set (assets l).
                     m = JObj [(''id'', JStr (asset_id a)),
                               (''thumbUrl'', JStr (''https://i.techie.pics/share/photo/''
                                  @ params_id req @ ''/'' @ asset_id a @ ''/thumbnail'')),
                               (''previewUrl'', JStr (''https://i.techie.pics/share/photo/''
                                  @ params_id req @ ''/'' @ asset_id a @ ''/preview'')),
                               (''originalUrl'', JStr (''https://i.techie.pics/share/photo/''
                                  @ params_id req @ ''/'' @ asset_id a @ ''/original''))]))
          \<and> response (shareApi_origin env req)
              = SendJson 200 (JObj [(''media'', JArr (map (\<lambda>a.
                   JObj [(''id'', JStr (asset_id a)),
                         (''thumbUrl'', JStr (origin req @ ''/share/photo/''
                            @ params_id req @ ''/'' @ asset_id a @ ''/thumb'')),
                         (''originalUrl'', JStr (origin req @ ''/share/photo/''
                            @ params_id req @ ''/'' @ asset_id a))]) (assets l)))]))
   \<and> (getGalleryAssetsByShareKey env (params_id req) = Throws
        \<longrightarrow> shareApi_part000 env req
            = SendJson 404 (JObj [(''error'', JStr ''Invalid or expired share key'')]))
   \<and> (\<forall>media. getGalleryAssetsByShareKey env (params_id req) = Returns media
        \<longrightarrow> shareApi_part000 env req = SendJson 200 (JObj [(''media'', media)]))"
proof -
  have calls: "resolutions (shareApi env req) = [(params_id req, Some (JStr []))]
      \<and> resolutions (shareApi_origin env req) = [(params_id req, Some (JStr []))]"
    by (simp add: shareApi_def shareApi_origin_def)
  have failure: "getShareByKey env (params_id req) (Some (JStr [])) = Throws
        \<or> (\<exists>share. getShareByKey env (params_id req) (Some (JStr [])) = Returns share
              \<and> (link_of share = None \<or> (\<exists>l. link_of share = Some l \<and> assets l = [])))
      \<longrightarrow> response (shareApi env req)
            = SendJson 404 (JObj [(''error'', JStr ''Invalid or expired share key'')])
        \<and> response (shareApi_origin env req)
            = SendJson 404 (JObj [(''error'', JStr ''Invalid or expired share key'')])"
    by (auto simp: shareApi_def shareApi_try_def shareApi_origin_def shareApi_origin_try_def
        error_envelope_def)
  have item: "\<exists>a \<in> set xs. m = JObj [(''id'', JStr (asset_id a)),
                               (''thumbUrl'', JStr (''https://i.techie.pics/share/photo/''
                                  @ params_id req @ ''/'' @ asset_id a @ ''/thumbnail'')),
                               (''previewUrl'', JStr (''https://i.techie.pics/share/photo/''
                                  @ params_id req @ ''/'' @ asset_id a @ ''/preview'')),
                               (''originalUrl'', JStr (''https://i.techie.pics/share/photo/''
                                  @ params_id req @ ''/'' @ asset_id a @ ''/original''))]"
    if "m \<in> set (map (media_item (params_id req)) (slice a b xs))" for m a b xs
  proof -
    from that obtain x where "x \<in> set (slice a b xs)" and "m = media_item (params_id req) x"
      by auto
    with set_slice [of a b xs] show ?thesis
      by (auto simp: media_item_def base_def)
  qed
  have success: "\<forall>share l. getShareByKey env (params_id req) (Some (JStr [])) = Returns share
          \<and> link_of share = Some l \<and> assets l \<noteq> []
        \<longrightarrow> (\<exists>media page pageSize total.
               response (shareApi env req)
                 = SendJson 200 (JObj [(''media'', JArr media), (''page'', page),
                                       (''pageSize'', pageSize), (''total'', total)])
               \<and> (\<forall>m \<in> set media. \<exists>a \<in> set (assets l).
                     m = JObj [(''id'', JStr (asset_id a)),
                               (''thumbUrl'', JStr (''https://i.techie.pics/share/photo/''
                                  @ params_id req @ ''/'' @ asset_id a @ ''/thumbnail'')),
                               (''previewUrl'', JStr (''https://i.techie.pics/share/photo/''
                                  @ params_id req @ ''/'' @ asset_id a @ ''/preview'')),
                               (''originalUrl'', JStr (''https://i.techie.pics/share/photo/''
                                  @ params_id req @ ''/'' @ asset_id a @ ''/original''))]))
          \<and> response (shareApi_origin env req)
              = SendJson 200 (JObj [(''media'', JArr (map (\<lambda>a.
                   JObj [(''id'', JStr (asset_id a)),
                         (''thumbUrl'', JStr (origin req @ ''/share/photo/''
                            @ params_id req @ ''/'' @ asset_id a @ ''/thumb'')),
                         (''originalUrl'', JStr (origin req @ ''/share/photo/''
                            @ params_id req @ ''/'' @ asset_id a))]) (assets l)))])"
  proof (intro allI impI, elim conjE, intro conjI)
    fix share l
    assume r: "getShareByKey env (params_id req) (Some (JStr [])) = Returns share"
      and l: "link_of share = Some l" and ne: "assets l \<noteq> []"
    let ?start = "mul (sub (page_of req) (Num 1)) (pageSize_of req)"
    let ?paged = "slice ?start (add ?start (pageSize_of req)) (assets l)"
    have "response (shareApi env req)
        = SendJson 200 (JObj [(''media'', JArr (map (media_item (params_id req)) ?paged)),
            (''page'', number_json (page_of req)),
            (''pageSize'', number_json (pageSize_of req)),
            (''total'', JNum (of_nat (length (assets l))))])"
      using r l ne by (simp add: shareApi_def shareApi_try_def listing_def Let_def)
    with item show "\<exists>media page pageSize total.
               response (shareApi env req)
                 = SendJson 200 (JObj [(''media'', JArr media), (''page'', page),
                                       (''pageSize'', pageSize), (''total'', total)])
               \<and> (\<forall>m \<in> set media. \<exists>a \<in> set (assets l).
                     m = JObj [(''id'', JStr (asset_id a)),
                               (''thumbUrl'', JStr (''https://i.techie.pics/share/photo/''
                                  @ params_id req @ ''/'' @ asset_id a @ ''/thumbnail'')),
                               (''previewUrl'', JStr (''https://i.techie.pics/share/photo/''
                                  @ params_id req @ ''/'' @ asset_id a @ ''/preview'')),
                               (''originalUrl'', JStr (''https://i.techie.pics/share/photo/''
                                  @ params_id req @ ''/'' @ asset_id a @ ''/original''))])"
      by blast
    show "response (shareApi_origin env req)
              = SendJson 200 (JObj [(''media'', JArr (map (\<lambda>a.
                   JObj [(''id'', JStr (asset_id a)),
                         (''thumbUrl'', JStr (origin req @ ''/share/photo/''
                            @ params_id req @ ''/'' @ asset_id a @ ''/thumb'')),
                         (''originalUrl'', JStr (origin req @ ''/share/photo/''
                            @ params_id req @ ''/'' @ asset_id a))]) (assets l)))])"
      using r l ne
      by (simp add: shareApi_origin_def shareApi_origin_try_def media_item_origin_def)
  qed
  have part000: "(getGalleryAssetsByShareKey env (params_id req) = Throws
        \<longrightarrow> shareApi_part000 env req
            = SendJson 404 (JObj [(''error'', JStr ''Invalid or expired share key'')]))
      \<and> (\<forall>media. getGalleryAssetsByShareKey env (params_id req) = Returns media
        \<longrightarrow> shareApi_part000 env req = SendJson 200 (JObj [(''media'', media)]))"
    by (simp add: shareApi_part000_def error_envelope_def)
  from calls failure success part000 show ?thesis
    by (intro conjI) (erule conjE | assumption)+
qed

theorem C5_listing_witness:
  "getShareByKey example_env (params_id (example_request\<lparr>params_id := ''XYZ''\<rparr>)) (Some (JStr []))
     = Returns None
   \<and> shareApi example_env (example_request\<lparr>params_id := ''XYZ''\<rparr>)
     = \<lparr>response = SendJson 404 (JObj [(''error'', JStr ''Invalid or expired share key'')]),
        resolutions = [(''XYZ'', Some (JStr []))]\<rparr>
   \<and> shareApi_origin example_env (example_request\<lparr>params_id := ''XYZ''\<rparr>)
     = \<lparr>response = SendJson 404 (JObj [(''error'', JStr ''Invalid or expired share key'')]),
        resolutions = [(''XYZ'', Some (JStr []))]\<rparr>"
proof -
  let ?req = "example_request\<lparr>params_id := ''XYZ''\<rparr>"
  have unknown: "getShareByKey example_env (params_id ?req) (Some (JStr [])) = Returns None"
    by (simp add: example_env_def)
  have none: "link_of None = None"
    by (simp add: link_of_def)
  have "shareApi example_env ?req
      = \<lparr>response = response (shareApi example_env ?req),
         resolutions = resolutions (shareApi example_env ?req)\<rparr>"
    and "shareApi_origin example_env ?req
      = \<lparr>response = response (shareApi_origin example_env ?req),
         resolutions = resolutions (shareApi_origin example_env ?req)\<rparr>"
    by simp_all
  with C5_listing_resolution_and_projection [of example_env ?req] unknown none
  show ?thesis by simp
qed

end
